theory Spec2Isabelle
  imports Main
begin

section \<open>ATS Resume Evaluator (Codes.py): values, text and library operations\<close>

text \<open>
  The program is one Streamlit script. Its own code is the glue between four
  libraries: the document readers (PyPDF2, docx2txt), the generative-text
  client, the JSON codec and the table writer. The glue is translated line by
  line; the libraries are either taken as parameters (the readers, the
  client, the cell renderer of the table writer) or, where a property depends
  on what they compute (\<open>str.format\<close>, \<open>str.lower\<close>, \<open>str.strip\<close>,
  \<open>str.endswith\<close>, \<open>re.search\<close>, \<open>json.loads\<close>, \<open>json.dumps\<close>, the values
  \<open>st.metric\<close> accepts), modelled as executable functions. The function
  \<open>extract_keywords_from_jd\<close> of the script is never called and is left out.

  A str is a list with one element per Python code point, so \<open>length\<close> and
  \<open>take\<close> count what Python's \<open>len\<close> and slicing count. What the user types
  (the job description, the link), the file names and the model's reply are
  \<open>string\<close>s: one \<open>char\<close> per code point, which covers code points below
  256 (ASCII and Latin-1). The text of a document, and the prompt it goes
  into, is a \<open>ustr\<close>: a list of code points as numbers, since what
  \<open>str.lower\<close> does to a resume depends on code points far above 255.
  An exception is a value: a function that can raise returns \<open>exn + 'a\<close>, and
  an exception nothing catches ends the run with \<open>Inl\<close>.
\<close>

subsection \<open>Exceptions\<close>

datatype exn =
    JSONDecodeError
  | AttributeError
  | TypeError
  | KeyError
  | ValueError
  | IndexError
  | LibraryError string  \<comment> \<open>raised inside PyPDF2, docx2txt or the API client\<close>
  | Unmodelled           \<comment> \<open>the library's result lies outside the model (a code point it does not cover)\<close>

subsection \<open>Parsed JSON values\<close>

text \<open>
  What \<open>json.loads\<close> returns: \<open>None\<close>, a bool, a number, a str, a list or a
  dict. A number is kept as the text that denotes it: the script never
  computes with one. A dict is an association list with distinct keys in
  insertion order.
\<close>

datatype json =
    JNull
  | JBool bool
  | JNumber string
  | JString string
  | JArray "json list"
  | JObject "(string \<times> json) list"

fun dict_set :: "string \<Rightarrow> json \<Rightarrow> (string \<times> json) list \<Rightarrow> (string \<times> json) list" where
  "dict_set k v [] = [(k, v)]"
| "dict_set k v ((k', v') # kvs) =
     (if k' = k then (k, v) # kvs else (k', v') # dict_set k v kvs)"

subsection \<open>Character classes\<close>

definition is_digit :: "char \<Rightarrow> bool" where
  "is_digit c = (let n = (of_char c :: nat) in 48 \<le> n \<and> n \<le> 57)"

definition is_json_ws :: "char \<Rightarrow> bool" where
  \<comment> \<open>the decoder's whitespace: space, tab, line feed, carriage return\<close>
  "is_json_ws c = (c = CHR '' '' \<or> c = CHR 0x09 \<or> c = CHR 0x0A \<or> c = CHR 0x0D)"

definition is_space :: "char \<Rightarrow> bool" where
  \<comment> \<open>\<open>str.isspace\<close> on code points below 256\<close>
  "is_space c = (let n = (of_char c :: nat)
     in (9 \<le> n \<and> n \<le> 13) \<or> (28 \<le> n \<and> n \<le> 32) \<or> n = 133 \<or> n = 160)"

type_synonym ustr = "nat list"

definition cps :: "string \<Rightarrow> ustr" where
  \<comment> \<open>the code points of a string\<close>
  "cps s = map of_char s"

text \<open>
  \<open>str.lower\<close> and \<open>str.isupper\<close>, code point by code point, on the part of
  Unicode written out here; \<open>None\<close> is a code point the model does not cover.
  The part holds the three kinds of behaviour Python has for an uppercase
  character:
  \<^item> below 256, A-Z and the Latin-1 capitals (U+00C0 to U+00DE without the
    multiplication sign U+00D7) go to the letter 32 above, everything else
    stays;
  \<^item> U+0130 (capital I with dot above) goes to two code points, \<open>i\<close> and
    the combining dot above U+0307, which itself has no case;
  \<^item> U+1D400 to U+1D419 (the mathematical bold capitals A to Z) are uppercase
    and have no lowercase form: \<open>str.lower\<close> leaves them as they are.
\<close>

definition latin1_upper :: "nat \<Rightarrow> bool" where
  "latin1_upper n = ((65 \<le> n \<and> n \<le> 90) \<or> (192 \<le> n \<and> n \<le> 222 \<and> n \<noteq> 215))"


definition lower_cp :: "nat \<Rightarrow> ustr option" where
  \<comment> \<open>\<open>c.lower()\<close> for one code point\<close>
  "lower_cp n =
     (if n < 256 then Some [if latin1_upper n then n + 32 else n]
      else if n = 304 then Some [105, 775]
      else if n = 775 then Some [775]
      else if 119808 \<le> n \<and> n \<le> 119833 then Some [n]
      else None)"

fun lower :: "ustr \<Rightarrow> exn + ustr" where
  \<comment> \<open>\<open>str.lower\<close>: the lowered code points, in order\<close>
  "lower [] = Inr []"
| "lower (c # cs) =
     (case lower_cp c of
        None \<Rightarrow> Inl Unmodelled
      | Some l \<Rightarrow> (case lower cs of Inl err \<Rightarrow> Inl err | Inr r \<Rightarrow> Inr (l @ r)))"

definition strip :: "string \<Rightarrow> string" where
  \<comment> \<open>\<open>str.strip()\<close>: whitespace removed at both ends\<close>
  "strip s = rev (dropWhile is_space (rev (dropWhile is_space s)))"

definition endswith :: "string \<Rightarrow> string \<Rightarrow> bool" where
  \<comment> \<open>\<open>s.endswith(suffix)\<close>\<close>
  "endswith s suffix =
     (length suffix \<le> length s \<and> drop (length s - length suffix) s = suffix)"

fun join :: "string \<Rightarrow> string list \<Rightarrow> string" where
  \<comment> \<open>\<open>sep.join(parts)\<close>\<close>
  "join sep [] = []"
| "join sep [p] = p"
| "join sep (p # q # ps) = p @ sep @ join sep (q # ps)"

subsection \<open>\<open>json.loads\<close>\<close>

text \<open>
  The decoder reads the text once, left to right. Here it is a scanner that
  cuts the text into tokens, one character per step, and a parser that keeps
  the open containers on a stack, one token per step. Any malformed text is
  \<open>JSONDecodeError\<close>, wherever the defect sits, so the two passes accept
  the same texts as the library's single pass.
\<close>

datatype token =
    TLBrace | TRBrace | TLBrack | TRBrack | TColon | TComma
  | TString string
  | TAtom string  \<comment> \<open>a maximal run of other characters: a number or a literal name\<close>

datatype scan_mode =
    Idle
  | InAtom string          \<comment> \<open>characters of the atom so far, last first\<close>
  | InString string        \<comment> \<open>decoded characters so far, last first\<close>
  | InEscape string        \<comment> \<open>after a backslash\<close>
  | InUnicode string string  \<comment> \<open>after \<open>\u\<close>, with the hex digits read so far, last first\<close>

definition punct :: "char \<Rightarrow> token option" where
  "punct c =
     (if c = CHR ''{'' then Some TLBrace else if c = CHR ''}'' then Some TRBrace
      else if c = CHR ''['' then Some TLBrack else if c = CHR '']'' then Some TRBrack
      else if c = CHR '':'' then Some TColon else if c = CHR '','' then Some TComma
      else None)"

definition unescape :: "char \<Rightarrow> char option" where
  "unescape c =
     (if c = CHR 0x22 then Some (CHR 0x22) else if c = CHR 0x5C then Some (CHR 0x5C)
      else if c = CHR ''/'' then Some (CHR ''/'') else if c = CHR ''b'' then Some (CHR 0x08)
      else if c = CHR ''f'' then Some (CHR 0x0C) else if c = CHR ''n'' then Some (CHR 0x0A)
      else if c = CHR ''r'' then Some (CHR 0x0D) else if c = CHR ''t'' then Some (CHR 0x09)
      else None)"

definition hex_digit :: "char \<Rightarrow> nat option" where
  "hex_digit c =
     (let n = (of_char c :: nat)
      in if 48 \<le> n \<and> n \<le> 57 then Some (n - 48)
         else if 65 \<le> n \<and> n \<le> 70 then Some (n - 55)
         else if 97 \<le> n \<and> n \<le> 102 then Some (n - 87)
         else None)"

fun hex_value :: "nat \<Rightarrow> string \<Rightarrow> nat option" where
  "hex_value acc [] = Some acc"
| "hex_value acc (c # cs) =
     (case hex_digit c of None \<Rightarrow> None | Some d \<Rightarrow> hex_value (16 * acc + d) cs)"

definition emit :: "token \<Rightarrow> exn + token list \<Rightarrow> exn + token list" where
  "emit t r = (case r of Inl e \<Rightarrow> Inl e | Inr ts \<Rightarrow> Inr (t # ts))"

fun scan :: "scan_mode \<Rightarrow> string \<Rightarrow> exn + token list" where
  "scan Idle [] = Inr []"
| "scan (InAtom a) [] = Inr [TAtom (rev a)]"
| "scan (InString s) [] = Inl JSONDecodeError"
| "scan (InEscape s) [] = Inl JSONDecodeError"
| "scan (InUnicode s h) [] = Inl JSONDecodeError"
| "scan Idle (c # cs) =
     (if is_json_ws c then scan Idle cs
      else if c = CHR 0x22 then scan (InString []) cs
      else case punct c of
             Some t \<Rightarrow> emit t (scan Idle cs)
           | None \<Rightarrow> scan (InAtom [c]) cs)"
| "scan (InAtom a) (c # cs) =
     (if is_json_ws c then emit (TAtom (rev a)) (scan Idle cs)
      else if c = CHR 0x22 then emit (TAtom (rev a)) (scan (InString []) cs)
      else case punct c of
             Some t \<Rightarrow> emit (TAtom (rev a)) (emit t (scan Idle cs))
           | None \<Rightarrow> scan (InAtom (c # a)) cs)"
| "scan (InString s) (c # cs) =
     (if c = CHR 0x22 then emit (TString (rev s)) (scan Idle cs)
      else if c = CHR 0x5C then scan (InEscape s) cs
      else if (of_char c :: nat) < 32 then Inl JSONDecodeError
      else scan (InString (c # s)) cs)"
| "scan (InEscape s) (c # cs) =
     (if c = CHR ''u'' then scan (InUnicode s []) cs
      else case unescape c of
             None \<Rightarrow> Inl JSONDecodeError
           | Some d \<Rightarrow> scan (InString (d # s)) cs)"
| "scan (InUnicode s h) (c # cs) =
     (case hex_digit c of
        None \<Rightarrow> Inl JSONDecodeError
      | Some _ \<Rightarrow>
          if length h < 3 then scan (InUnicode s (c # h)) cs
          else (case hex_value 0 (rev (c # h)) of
                  None \<Rightarrow> Inl JSONDecodeError
                | Some n \<Rightarrow> if n < 256 then scan (InString (char_of n # s)) cs
                            else Inl Unmodelled))"

text \<open>
  A number is \<open>-?(0|[1-9][0-9]*)(\.[0-9]+)?([eE][-+]?[0-9]+)?\<close>; the decoder
  also accepts the names \<open>NaN\<close>, \<open>Infinity\<close> and \<open>-Infinity\<close>.
\<close>

definition digits1 :: "string \<Rightarrow> bool" where
  "digits1 s = (s \<noteq> [] \<and> list_all is_digit s)"

definition is_exponent :: "string \<Rightarrow> bool" where
  "is_exponent s =
     (case s of
        [] \<Rightarrow> True
      | c # r \<Rightarrow> (c = CHR ''e'' \<or> c = CHR ''E'') \<and>
          (case r of
             [] \<Rightarrow> False
           | d # r' \<Rightarrow> if d = CHR ''+'' \<or> d = CHR ''-'' then digits1 r' else digits1 r))"

definition is_fraction_exponent :: "string \<Rightarrow> bool" where
  "is_fraction_exponent s =
     (case s of
        [] \<Rightarrow> True
      | c # r \<Rightarrow>
          if c = CHR ''.''
          then takeWhile is_digit r \<noteq> [] \<and> is_exponent (dropWhile is_digit r)
          else is_exponent s)"

definition is_number :: "string \<Rightarrow> bool" where
  "is_number s =
     (let u = (case s of [] \<Rightarrow> [] | c # r \<Rightarrow> if c = CHR ''-'' then r else s);
          ip = takeWhile is_digit u
      in ip \<noteq> [] \<and> (hd ip = CHR ''0'' \<longrightarrow> length ip = 1) \<and>
         is_fraction_exponent (dropWhile is_digit u))"

definition atom_value :: "string \<Rightarrow> json option" where
  "atom_value a =
     (if a = ''null'' then Some JNull
      else if a = ''true'' then Some (JBool True)
      else if a = ''false'' then Some (JBool False)
      else if a = ''NaN'' \<or> a = ''Infinity'' \<or> a = ''-Infinity'' then Some (JNumber a)
      else if is_number a then Some (JNumber a)
      else None)"

datatype frame =
    FArr "json list"                    \<comment> \<open>an open list: its items so far, last first\<close>
  | FObj "(string \<times> json) list"          \<comment> \<open>an open dict, a key or the end expected\<close>
  | FKey "(string \<times> json) list" string   \<comment> \<open>an open dict, the value of this key expected\<close>

datatype phase =
    ExpValue | ExpValueOrClose | ExpKey | ExpKeyOrClose | ExpColon | ExpCommaOrClose
  | Done json

definition complete :: "json \<Rightarrow> frame list \<Rightarrow> (phase \<times> frame list) option" where
  \<comment> \<open>a value has been read: it goes into the innermost open container\<close>
  "complete v stack =
     (case stack of
        [] \<Rightarrow> Some (Done v, [])
      | FArr xs # st \<Rightarrow> Some (ExpCommaOrClose, FArr (v # xs) # st)
      | FKey kvs k # st \<Rightarrow> Some (ExpCommaOrClose, FObj (dict_set k v kvs) # st)
      | FObj kvs # st \<Rightarrow> None)"

definition start_value :: "token \<Rightarrow> frame list \<Rightarrow> (phase \<times> frame list) option" where
  "start_value t stack =
     (case t of
        TString s \<Rightarrow> complete (JString s) stack
      | TAtom a \<Rightarrow> (case atom_value a of None \<Rightarrow> None | Some v \<Rightarrow> complete v stack)
      | TLBrack \<Rightarrow> Some (ExpValueOrClose, FArr [] # stack)
      | TLBrace \<Rightarrow> Some (ExpKeyOrClose, FObj [] # stack)
      | _ \<Rightarrow> None)"

definition start_key :: "token \<Rightarrow> frame list \<Rightarrow> (phase \<times> frame list) option" where
  "start_key t stack =
     (case (t, stack) of
        (TString k, FObj kvs # st) \<Rightarrow> Some (ExpColon, FKey kvs k # st)
      | _ \<Rightarrow> None)"

definition close_list :: "frame list \<Rightarrow> (phase \<times> frame list) option" where
  "close_list stack =
     (case stack of FArr xs # st \<Rightarrow> complete (JArray (rev xs)) st | _ \<Rightarrow> None)"

definition close_dict :: "frame list \<Rightarrow> (phase \<times> frame list) option" where
  "close_dict stack =
     (case stack of FObj kvs # st \<Rightarrow> complete (JObject kvs) st | _ \<Rightarrow> None)"

definition parse_step :: "phase \<Rightarrow> frame list \<Rightarrow> token \<Rightarrow> (phase \<times> frame list) option" where
  "parse_step ph stack t =
     (case ph of
        ExpValue \<Rightarrow> start_value t stack
      | ExpValueOrClose \<Rightarrow> if t = TRBrack then close_list stack else start_value t stack
      | ExpKey \<Rightarrow> start_key t stack
      | ExpKeyOrClose \<Rightarrow> if t = TRBrace then close_dict stack else start_key t stack
      | ExpColon \<Rightarrow> if t = TColon then Some (ExpValue, stack) else None
      | ExpCommaOrClose \<Rightarrow>
          (case stack of
             FArr xs # st \<Rightarrow>
               if t = TComma then Some (ExpValue, stack)
               else if t = TRBrack then close_list stack else None
           | FObj kvs # st \<Rightarrow>
               if t = TComma then Some (ExpKey, stack)
               else if t = TRBrace then close_dict stack else None
           | _ \<Rightarrow> None)
      | Done v \<Rightarrow> None)"

fun parse :: "phase \<Rightarrow> frame list \<Rightarrow> token list \<Rightarrow> exn + json" where
  "parse ph stack [] = (case ph of Done v \<Rightarrow> Inr v | _ \<Rightarrow> Inl JSONDecodeError)"
| "parse ph stack (t # ts) =
     (case parse_step ph stack t of
        None \<Rightarrow> Inl JSONDecodeError
      | Some (ph', stack') \<Rightarrow> parse ph' stack' ts)"

definition json_loads :: "string \<Rightarrow> exn + json" where
  "json_loads s = (case scan Idle s of Inl e \<Rightarrow> Inl e | Inr ts \<Rightarrow> parse ExpValue [] ts)"

subsection \<open>\<open>json.dumps\<close>\<close>

text \<open>
  The encoder with its defaults: items separated by \<open>", "\<close>, keys from values
  by \<open>": "\<close>, every character outside the printable ASCII range escaped. A
  number is written as the text kept for it. The script encodes one dict
  only, the fallback of \<open>get_gemini_response\<close>, which holds strs and an empty
  list.
\<close>

definition hex_char :: "nat \<Rightarrow> char" where
  "hex_char d = (if d < 10 then char_of (48 + d) else char_of (87 + d))"

definition escape_char :: "char \<Rightarrow> string" where
  "escape_char c =
     (if c = CHR 0x22 then [CHR 0x5C, CHR 0x22]
      else if c = CHR 0x5C then [CHR 0x5C, CHR 0x5C]
      else if c = CHR 0x0A then [CHR 0x5C, CHR ''n'']
      else if c = CHR 0x0D then [CHR 0x5C, CHR ''r'']
      else if c = CHR 0x09 then [CHR 0x5C, CHR ''t'']
      else if c = CHR 0x08 then [CHR 0x5C, CHR ''b'']
      else if c = CHR 0x0C then [CHR 0x5C, CHR ''f'']
      else let n = (of_char c :: nat)
           in if 32 \<le> n \<and> n \<le> 126 then [c]
              else [CHR 0x5C, CHR ''u'', CHR ''0'', CHR ''0'', hex_char (n div 16), hex_char (n mod 16)])"

definition quote :: "string \<Rightarrow> string" where
  "quote s = [CHR 0x22] @ concat (map escape_char s) @ [CHR 0x22]"

fun json_dumps :: "json \<Rightarrow> string" where
  "json_dumps JNull = ''null''"
| "json_dumps (JBool b) = (if b then ''true'' else ''false'')"
| "json_dumps (JNumber n) = n"
| "json_dumps (JString s) = quote s"
| "json_dumps (JArray xs) = ''['' @ join '', '' (map json_dumps xs) @ '']''"
| "json_dumps (JObject kvs) =
     ''{'' @ join '', '' (map (\<lambda>kv. quote (fst kv) @ '': '' @ json_dumps (snd kv)) kvs) @ ''}''"

subsection \<open>\<open>re.search(r"\{.*\}", text, re.DOTALL)\<close>\<close>

text \<open>
  The pattern is an opening brace, any characters (newlines too, under
  \<open>DOTALL\<close>) as many as possible, and a closing brace. The matcher is the
  backtracking one: \<open>dot_star_close\<close> lets \<open>.*\<close> take the next character and
  matches on; only when that fails does it try the closing brace here.
  \<open>re_search\<close> tries the start positions from the left.
\<close>

fun dot_star_close :: "string \<Rightarrow> string option" where
  "dot_star_close [] = None"
| "dot_star_close (c # cs) =
     (case dot_star_close cs of
        Some m \<Rightarrow> Some (c # m)
      | None \<Rightarrow> if c = CHR ''}'' then Some [c] else None)"

fun re_search :: "string \<Rightarrow> string option" where
  "re_search [] = None"
| "re_search (c # cs) =
     (if c = CHR ''{''
      then (case dot_star_close cs of Some m \<Rightarrow> Some (c # m) | None \<Rightarrow> re_search cs)
      else re_search cs)"

subsection \<open>\<open>str.format\<close> with keyword arguments\<close>

text \<open>
  \<open>{{\<close> and \<open>}}\<close> stand for one brace, \<open>{name}\<close> for the argument of that name.
  Conversions, format specifications and attribute or index lookups in a
  field do not occur in the script's template and are outside the model.
  The template is a \<open>string\<close>, the arguments and the result are \<open>ustr\<close>s.
\<close>

datatype format_mode =
    Text
  | AfterOpen            \<comment> \<open>one \<open>{\<close> read\<close>
  | Field string         \<comment> \<open>inside a field; its name so far, last first\<close>
  | AfterClose           \<comment> \<open>one \<open>}\<close> read outside a field\<close>

definition put :: "ustr \<Rightarrow> exn + ustr \<Rightarrow> exn + ustr" where
  "put s r = (case r of Inl e \<Rightarrow> Inl e | Inr out \<Rightarrow> Inr (s @ out))"

fun format_from :: "format_mode \<Rightarrow> (string \<times> ustr) list \<Rightarrow> string \<Rightarrow> exn + ustr" where
  "format_from Text kwargs [] = Inr []"
| "format_from AfterOpen kwargs [] = Inl ValueError"
| "format_from (Field n) kwargs [] = Inl ValueError"
| "format_from AfterClose kwargs [] = Inl ValueError"
| "format_from Text kwargs (c # cs) =
     (if c = CHR ''{'' then format_from AfterOpen kwargs cs
      else if c = CHR ''}'' then format_from AfterClose kwargs cs
      else put (cps [c]) (format_from Text kwargs cs))"
| "format_from AfterOpen kwargs (c # cs) =
     (if c = CHR ''{'' then put (cps ''{'') (format_from Text kwargs cs)
      else if c = CHR ''}'' then Inl IndexError
      else if c \<in> set ''!:.['' then Inl Unmodelled
      else format_from (Field [c]) kwargs cs)"
| "format_from (Field n) kwargs (c # cs) =
     (if c = CHR ''}''
      then (if list_all is_digit n then Inl IndexError
            else case map_of kwargs (rev n) of
                   None \<Rightarrow> Inl KeyError
                 | Some v \<Rightarrow> put v (format_from Text kwargs cs))
      else if c \<in> set ''!:.[{'' then Inl Unmodelled
      else format_from (Field (c # n)) kwargs cs)"
| "format_from AfterClose kwargs (c # cs) =
     (if c = CHR ''}'' then put (cps ''}'') (format_from Text kwargs cs) else Inl ValueError)"

definition format :: "string \<Rightarrow> (string \<times> ustr) list \<Rightarrow> exn + ustr" where
  "format template kwargs = format_from Text kwargs template"

section \<open>The script\<close>

subsection \<open>Uploaded files, the libraries taken as parameters, the page shown\<close>

record uploaded_file =
  name :: string
  content :: string

text \<open>
  \<open>PdfReader\<close> gives the pages of a PDF, each page being what its
  \<open>extract_text()\<close> returns or raises; \<open>docx2txt_process\<close> gives the text
  of a DOCX; \<open>generate_content\<close> is the whole exchange with the model (building
  the client, the request, reading \<open>response.text\<close>), from the prompt to the
  reply; \<open>cell_text\<close> is the text the table writer puts for a cell, quoting
  included, and \<open>lineterminator\<close> the line end of the platform.
\<close>

record env =
  PdfReader :: "uploaded_file \<Rightarrow> exn + (exn + ustr) list"
  docx2txt_process :: "uploaded_file \<Rightarrow> exn + ustr"
  generate_content :: "ustr \<Rightarrow> exn + string"
  cell_text :: "json \<Rightarrow> string"
  lineterminator :: string

text \<open>
  What the script puts on the page, call by call. A formatted message is
  recorded by the values it is built from; labels are recorded without their
  emoji.
\<close>

datatype ui_event =
    StError string
  | StGeminiError exn                 \<comment> \<open>\<open>st.error(f"Gemini API error: {e}")\<close>\<close>
  | StSubheader string                \<comment> \<open>the file name\<close>
  | StMetric string json
  | StMetricCount string nat          \<comment> \<open>\<open>str(len(missing_keywords))\<close>\<close>
  | StInfoBox json json json json json json
  | StInfo json                       \<comment> \<open>the profile summary\<close>
  | StWarning string                  \<comment> \<open>the missing keywords, joined\<close>
  | StProgress nat nat                \<comment> \<open>numerator and denominator of the fraction\<close>
  | StDownloadButton string           \<comment> \<open>the bytes of \<open>ats_report.csv\<close>\<close>
  | StSuccess
  | StBalloons

type_synonym row = "(string \<times> json) list"

record run_state =
  ui :: "ui_event list"
  results_data :: "row list"

subsection \<open>\<open>get_gemini_response\<close>\<close>

definition fallback_payload :: json where
  "fallback_payload = JObject
     [(''JD Match'', JString ''N/A''), (''MissingKeywords'', JArray []),
      (''Profile Summary'', JString ''Error''), (''Candidate Name'', JString ''''),
      (''Role'', JString ''''), (''Current Company'', JString ''''),
      (''Duration'', JString ''''), (''Overall Experience'', JString ''''),
      (''LinkedIn'', JString '''')]"

definition get_gemini_response :: "env \<Rightarrow> ustr \<Rightarrow> string \<times> ui_event list" where
  "get_gemini_response e input_text =
     (case generate_content e input_text of
        Inr reply \<Rightarrow> (reply, [])
      | Inl err \<Rightarrow> (json_dumps fallback_payload, [StGeminiError err]))"

subsection \<open>\<open>input_resume_text\<close>\<close>

fun page_texts :: "(exn + ustr) list \<Rightarrow> exn + ustr list" where
  \<comment> \<open>\<open>[page.extract_text() for page in reader.pages if page.extract_text()]\<close>\<close>
  "page_texts [] = Inr []"
| "page_texts (p # ps) =
     (case p of
        Inl err \<Rightarrow> Inl err
      | Inr t \<Rightarrow>
          (case page_texts ps of
             Inl err \<Rightarrow> Inl err
           | Inr ts \<Rightarrow> Inr (if t \<noteq> [] then t # ts else ts)))"

definition input_resume_text :: "env \<Rightarrow> uploaded_file \<Rightarrow> exn + ustr" where
  "input_resume_text e uploaded =
     (if endswith (name uploaded) ''.pdf''
      then (case PdfReader e uploaded of
              Inl err \<Rightarrow> Inl err
            | Inr pages \<Rightarrow>
                (case page_texts pages of Inl err \<Rightarrow> Inl err | Inr ts \<Rightarrow> Inr (concat ts)))
      else if endswith (name uploaded) ''.docx'' then docx2txt_process e uploaded
      else Inr [])"

subsection \<open>The prompt\<close>

definition input_prompt :: string where
  \<open>input_prompt =
     ''\<newline>Act like an ATS. Evaluate this resume against the JD.\<newline>Return JSON:\<newline>{{"JD Match":"%","MissingKeywords":[],"Profile Summary":"","Candidate Name":"","Role":"","Current Company":"","Duration":"","Overall Experience":"","LinkedIn":"{linkedin}"}}\<newline>Resume: {text}\<newline>Job Description: {jd}\<newline>LinkedIn: {linkedin}\<newline>''\<close>

definition build_prompt :: "ustr \<Rightarrow> string \<Rightarrow> string \<Rightarrow> exn + ustr" where
  \<comment> \<open>\<open>input_prompt.format(text=resume_text[:4000], jd=jd_input[:1000], linkedin=linkedin_url)\<close>\<close>
  "build_prompt resume_text jd_input linkedin_url =
     format input_prompt
       [(''text'', take 4000 resume_text), (''jd'', cps (take 1000 jd_input)),
        (''linkedin'', cps linkedin_url)]"

definition resume_prompt :: "env \<Rightarrow> string \<Rightarrow> string \<Rightarrow> uploaded_file \<Rightarrow> exn + ustr" where
  \<comment> \<open>lines 108 to 111: extract, lower, build the prompt\<close>
  "resume_prompt e jd_input linkedin_url uploaded =
     (case input_resume_text e uploaded of
        Inl err \<Rightarrow> Inl err
      | Inr extracted \<Rightarrow>
          (case lower extracted of
             Inl err \<Rightarrow> Inl err
           | Inr resume_text \<Rightarrow> build_prompt resume_text jd_input linkedin_url))"

subsection \<open>Parsing the response\<close>

definition parse_response :: "string \<Rightarrow> exn + json option" where
  \<comment> \<open>lines 113 to 121; \<open>Inr None\<close> is the \<open>continue\<close>, \<open>Inl\<close> an exception that leaves the loop\<close>
  "parse_response response =
     (case json_loads response of
        Inr v \<Rightarrow> Inr (Some v)
      | Inl err \<Rightarrow>
          if err = JSONDecodeError
          then (case re_search response of
                  Some m \<Rightarrow> (case json_loads m of Inr v \<Rightarrow> Inr (Some v) | Inl err' \<Rightarrow> Inl err')
                | None \<Rightarrow> Inr None)
          else Inl err)"

subsection \<open>Field extraction and the report row\<close>

definition dict_get :: "(string \<times> json) list \<Rightarrow> string \<Rightarrow> json \<Rightarrow> json" where
  \<comment> \<open>\<open>d.get(key, default)\<close> on a dict\<close>
  "dict_get kvs key dflt = (case map_of kvs key of Some v \<Rightarrow> v | None \<Rightarrow> dflt)"

definition py_len :: "json \<Rightarrow> exn + nat" where
  "py_len v =
     (case v of
        JArray xs \<Rightarrow> Inr (length xs)
      | JString s \<Rightarrow> Inr (length s)
      | JObject kvs \<Rightarrow> Inr (length kvs)
      | _ \<Rightarrow> Inl TypeError)"

fun str_items :: "json list \<Rightarrow> string list option" where
  "str_items [] = Some []"
| "str_items (x # xs) =
     (case x of
        JString s \<Rightarrow> (case str_items xs of None \<Rightarrow> None | Some ss \<Rightarrow> Some (s # ss))
      | _ \<Rightarrow> None)"

definition py_join :: "string \<Rightarrow> json \<Rightarrow> exn + string" where
  \<comment> \<open>\<open>sep.join(v)\<close>: the items of a list must be strs; a str gives its characters, a dict its keys\<close>
  "py_join sep v =
     (case v of
        JArray xs \<Rightarrow> (case str_items xs of None \<Rightarrow> Inl TypeError | Some ss \<Rightarrow> Inr (join sep ss))
      | JString s \<Rightarrow> Inr (join sep (map (\<lambda>c. [c]) s))
      | JObject kvs \<Rightarrow> Inr (join sep (map fst kvs))
      | _ \<Rightarrow> Inl TypeError)"

definition metric_accepts :: "json \<Rightarrow> bool" where
  \<comment> \<open>\<open>st.metric\<close> takes an int, a float, a str or \<open>None\<close> as its value\<close>
  "metric_accepts v = (case v of JArray xs \<Rightarrow> False | JObject kvs \<Rightarrow> False | _ \<Rightarrow> True)"

definition show_result :: "string \<Rightarrow> json \<Rightarrow> exn + ui_event list \<times> row" where
  \<comment> \<open>lines 123 to 166. \<open>.get\<close> exists on a dict only; \<open>st.metric\<close> raises on a
     value it does not accept; an empty value is false, so no warning is shown for it\<close>
  "show_result file_name response_json =
     (case response_json of
        JObject kvs \<Rightarrow>
          (let jd_match = dict_get kvs ''JD Match'' (JString ''N/A'');
               missing_keywords = dict_get kvs ''MissingKeywords'' (JArray []);
               profile_summary = dict_get kvs ''Profile Summary'' (JString '''');
               candidate_name = dict_get kvs ''Candidate Name'' (JString '''');
               role = dict_get kvs ''Role'' (JString '''');
               current_company = dict_get kvs ''Current Company'' (JString '''');
               duration = dict_get kvs ''Duration'' (JString '''');
               overall_experience = dict_get kvs ''Overall Experience'' (JString '''');
               linkedin = dict_get kvs ''LinkedIn'' (JString '''')
           in if \<not> metric_accepts jd_match then Inl TypeError
              else case py_len missing_keywords of
                Inl err \<Rightarrow> Inl err
              | Inr n \<Rightarrow>
                  (case py_join '', '' missing_keywords of
                     Inl err \<Rightarrow> Inl err
                   | Inr joined \<Rightarrow>
                       Inr ([StMetric ''JD Match'' jd_match,
                             StMetricCount ''Missing Keywords'' n,
                             StInfoBox candidate_name role current_company duration
                               overall_experience linkedin,
                             StInfo profile_summary]
                            @ (if n \<noteq> 0 then [StWarning joined] else []),
                            [(''Resume File'', JString file_name),
                             (''JD Match'', jd_match),
                             (''Candidate Name'', candidate_name),
                             (''Role'', role),
                             (''Current Company'', current_company),
                             (''Duration'', duration),
                             (''Overall Experience'', overall_experience),
                             (''LinkedIn'', linkedin),
                             (''Missing Keywords'', JString joined),
                             (''Profile Summary'', profile_summary)])))
      | _ \<Rightarrow> Inl AttributeError)"

subsection \<open>One resume: the body of the loop\<close>

definition process_resume ::
  "env \<Rightarrow> string \<Rightarrow> string \<Rightarrow> uploaded_file \<Rightarrow> exn + ui_event list \<times> row option" where
  \<comment> \<open>lines 108 to 166; no row is the \<open>continue\<close> of line 121\<close>
  "process_resume e jd_input linkedin_url uploaded =
     (case resume_prompt e jd_input linkedin_url uploaded of
        Inl err \<Rightarrow> Inl err
      | Inr prompt \<Rightarrow>
          (let (response, shown) = get_gemini_response e prompt
           in case parse_response response of
                Inl err \<Rightarrow> Inl err
              | Inr None \<Rightarrow>
                  Inr (StSubheader (name uploaded) # shown @ [StError ''Failed to parse JSON.''],
                       None)
              | Inr (Some response_json) \<Rightarrow>
                  (case show_result (name uploaded) response_json of
                     Inl err \<Rightarrow> Inl err
                   | Inr (evs, r) \<Rightarrow> Inr (StSubheader (name uploaded) # shown @ evs, Some r))))"

subsection \<open>The loop and the report\<close>

fun evaluate_loop ::
  "env \<Rightarrow> string \<Rightarrow> string \<Rightarrow> nat \<Rightarrow> nat \<Rightarrow> uploaded_file list \<Rightarrow> run_state \<Rightarrow> exn + run_state" where
  \<comment> \<open>\<open>for idx, uploaded_file in enumerate(uploaded_files)\<close>; the progress bar moves only
     when the body reaches its end\<close>
  "evaluate_loop e jd_input linkedin_url n_files idx [] st = Inr st"
| "evaluate_loop e jd_input linkedin_url n_files idx (uploaded # rest) st =
     (case process_resume e jd_input linkedin_url uploaded of
        Inl err \<Rightarrow> Inl err
      | Inr (evs, None) \<Rightarrow>
          evaluate_loop e jd_input linkedin_url n_files (idx + 1) rest
            (st\<lparr>ui := ui st @ evs\<rparr>)
      | Inr (evs, Some r) \<Rightarrow>
          evaluate_loop e jd_input linkedin_url n_files (idx + 1) rest
            (st\<lparr>ui := ui st @ evs @ [StProgress (idx + 1) n_files],
                results_data := results_data st @ [r]\<rparr>))"

definition columns :: "row list \<Rightarrow> string list" where
  \<comment> \<open>\<open>pd.DataFrame(results_data)\<close>: the keys of the dicts, which all have the same keys\<close>
  "columns rows = (case rows of [] \<Rightarrow> [] | r # _ \<Rightarrow> map fst r)"

definition csv_line :: "env \<Rightarrow> string list \<Rightarrow> string" where
  "csv_line e cells = join '','' cells @ lineterminator e"

definition to_csv :: "env \<Rightarrow> row list \<Rightarrow> string" where
  \<comment> \<open>\<open>df.to_csv(index=False)\<close>: the header line, then one line per row\<close>
  "to_csv e rows =
     csv_line e (columns rows) @
     concat (map (\<lambda>r. csv_line e
                          (map (\<lambda>c. case map_of r c of Some v \<Rightarrow> cell_text e v | None \<Rightarrow> [])
                               (columns rows)))
                 rows)"

definition encode_utf8 :: "string \<Rightarrow> string" where
  \<comment> \<open>\<open>.encode("utf-8")\<close> of code points below 256\<close>
  "encode_utf8 s =
     concat (map (\<lambda>c. let n = (of_char c :: nat)
                        in if n < 128 then [c]
                           else [char_of (192 + n div 64), char_of (128 + n mod 64)]) s)"

definition evaluate_resumes ::
  "env \<Rightarrow> string \<Rightarrow> uploaded_file list \<Rightarrow> string \<Rightarrow> exn + run_state" where
  \<comment> \<open>lines 100 to 176: what one press of the button does\<close>
  "evaluate_resumes e jd_input uploaded_files linkedin_url =
     (if uploaded_files = [] \<or> strip jd_input = []
      then Inr \<lparr>ui = [StError ''Please provide both JD and at least one resume.''],
                results_data = []\<rparr>
      else case evaluate_loop e jd_input linkedin_url (length uploaded_files) 0 uploaded_files
                  \<lparr>ui = [StProgress 0 (length uploaded_files)], results_data = []\<rparr> of
             Inl err \<Rightarrow> Inl err
           | Inr st \<Rightarrow>
               Inr (st\<lparr>ui := ui st
                      @ (if results_data st \<noteq> []
                         then [StDownloadButton (encode_utf8 (to_csv e (results_data st)))]
                         else [])
                      @ [StSuccess, StBalloons]\<rparr>))"

section \<open>Reference definitions and sample inputs\<close>

text \<open>
  The text the template produces, written out: what \<open>format\<close> is proved to
  return for the three keyword arguments.
\<close>

definition prompt_text :: "ustr \<Rightarrow> string \<Rightarrow> string \<Rightarrow> ustr" where
  \<open>prompt_text resume_part jd_part link =
     cps ''\<newline>Act like an ATS. Evaluate this resume against the JD.\<newline>Return JSON:\<newline>{"JD Match":"%","MissingKeywords":[],"Profile Summary":"","Candidate Name":"","Role":"","Current Company":"","Duration":"","Overall Experience":"","LinkedIn":"''
     @ cps link @ cps ''"}\<newline>Resume: '' @ resume_part @ cps ''\<newline>Job Description: ''
     @ cps jd_part
     @ cps ''\<newline>LinkedIn: '' @ cps link @ cps ''\<newline>''\<close>

text \<open>
  The span the specification describes for the fallback: from the first
  opening brace of the text to its last closing brace.
\<close>

definition brace_span :: "string \<Rightarrow> string option" where
  "brace_span s =
     (let from_first = dropWhile (\<lambda>c. c \<noteq> CHR ''{'') s
      in if CHR ''}'' \<in> set from_first
         then Some (rev (dropWhile (\<lambda>c. c \<noteq> CHR ''}'') (rev from_first)))
         else None)"

definition csv_columns :: "string list" where
  "csv_columns =
     [''Resume File'', ''JD Match'', ''Candidate Name'', ''Role'', ''Current Company'',
      ''Duration'', ''Overall Experience'', ''LinkedIn'', ''Missing Keywords'',
      ''Profile Summary'']"

definition parsed_json :: "env \<Rightarrow> string \<Rightarrow> string \<Rightarrow> uploaded_file \<Rightarrow> json option" where
  \<comment> \<open>the value the response of this resume was parsed to, if it was\<close>
  "parsed_json e jd_input linkedin_url uploaded =
     (case resume_prompt e jd_input linkedin_url uploaded of
        Inl err \<Rightarrow> None
      | Inr prompt \<Rightarrow>
          (case parse_response (fst (get_gemini_response e prompt)) of
             Inr (Some v) \<Rightarrow> Some v
           | _ \<Rightarrow> None))"

text \<open>A sample cell renderer: a str as it is, quoted when it holds a comma, a quote or a line end.\<close>

definition plain_cell :: "json \<Rightarrow> string" where
  "plain_cell v =
     (let s = (case v of JString s \<Rightarrow> s | JNull \<Rightarrow> [] | _ \<Rightarrow> json_dumps v)
      in if list_ex (\<lambda>c. c = CHR '','' \<or> c = CHR 0x22 \<or> c = CHR 0x0A \<or> c = CHR 0x0D) s
         then [CHR 0x22] @ concat (map (\<lambda>c. if c = CHR 0x22 then [c, c] else [c]) s) @ [CHR 0x22]
         else s)"

text \<open>Sample libraries: readers that fail, and a model that answers with a fixed text.\<close>

definition answering :: "string \<Rightarrow> env" where
  "answering reply =
     \<lparr>PdfReader = (\<lambda>f. Inr [Inr (cps (content f))]),
      docx2txt_process = (\<lambda>f. Inr (cps (content f))),
      generate_content = (\<lambda>p. Inr reply),
      cell_text = plain_cell,
      lineterminator = ''\<newline>''\<rparr>"

definition failing :: env where
  "failing =
     \<lparr>PdfReader = (\<lambda>f. Inl (LibraryError ''not a PDF'')),
      docx2txt_process = (\<lambda>f. Inl (LibraryError ''not a DOCX'')),
      generate_content = (\<lambda>p. Inl (LibraryError ''quota exceeded'')),
      cell_text = plain_cell,
      lineterminator = ''\<newline>''\<rparr>"


definition cv :: "string \<Rightarrow> uploaded_file" where
  "cv file_name = \<lparr>name = file_name, content = ''Ada LOVELACE, analyst''\<rparr>"

definition fallback_text :: string where
  \<comment> \<open>the text \<open>json.dumps\<close> gives for the dict of line 70\<close>
  \<open>fallback_text =
     ''{"JD Match": "N/A", "MissingKeywords": [], "Profile Summary": "Error", "Candidate Name": "", "Role": "", "Current Company": "", "Duration": "", "Overall Experience": "", "LinkedIn": ""}''\<close>

text \<open>A reply with all nine keys, and the dict it denotes.\<close>

definition sample_reply :: string where
  \<open>sample_reply =
     ''{"JD Match": "80%", "MissingKeywords": ["python", "sql"], "Profile Summary": "Analyst", "Candidate Name": "Ada", "Role": "Engineer", "Current Company": "Acme", "Duration": "2 years", "Overall Experience": "5 years", "LinkedIn": "none"}''\<close>

definition sample_fields :: "(string \<times> json) list" where
  "sample_fields =
     [(''JD Match'', JString ''80%''),
      (''MissingKeywords'', JArray [JString ''python'', JString ''sql'']),
      (''Profile Summary'', JString ''Analyst''), (''Candidate Name'', JString ''Ada''),
      (''Role'', JString ''Engineer''), (''Current Company'', JString ''Acme''),
      (''Duration'', JString ''2 years''), (''Overall Experience'', JString ''5 years''),
      (''LinkedIn'', JString ''none'')]"

text \<open>
  A model that declines every prompt with a \<open>z\<close> in it (the template has
  none, so the resume decides) and otherwise answers with the sample reply.
\<close>

definition picky :: env where
  "picky =
     \<lparr>PdfReader = (\<lambda>f. Inr [Inr (cps (content f))]),
      docx2txt_process = (\<lambda>f. Inr (cps (content f))),
      generate_content =
        (\<lambda>p. if of_char (CHR ''z'') \<in> set p then Inr ''I cannot help with that.'' else Inr sample_reply),
      cell_text = plain_cell,
      lineterminator = ''\<newline>''\<rparr>"

definition sample_row :: "string \<Rightarrow> row" where
  \<comment> \<open>the row of the sample reply for a file of this name\<close>
  "sample_row file_name =
     [(''Resume File'', JString file_name),
      (''JD Match'', JString ''80%''),
      (''Candidate Name'', JString ''Ada''),
      (''Role'', JString ''Engineer''),
      (''Current Company'', JString ''Acme''),
      (''Duration'', JString ''2 years''),
      (''Overall Experience'', JString ''5 years''),
      (''LinkedIn'', JString ''none''),
      (''Missing Keywords'', JString ''python, sql''),
      (''Profile Summary'', JString ''Analyst'')]"

section \<open>Properties\<close>

subsection \<open>Text operations\<close>

lemma format_input_prompt:
  "format input_prompt [(''text'', t), (''jd'', cps j), (''linkedin'', cps l)]
     = Inr (prompt_text t j l)"
  by (simp add: format_def input_prompt_def put_def prompt_text_def is_digit_def cps_def)

lemma build_prompt_text:
  "build_prompt resume_text jd_input linkedin_url =
     Inr (prompt_text (take 4000 resume_text) (take 1000 jd_input) linkedin_url)"
  by (simp only: build_prompt_def format_input_prompt)

lemma strip_empty_iff: "strip s = [] \<longleftrightarrow> (\<forall>c \<in> set s. is_space c)"
proof
  assume "strip s = []"
  then have "dropWhile is_space (rev (dropWhile is_space s)) = []"
    by (simp add: strip_def)
  then have all: "\<forall>c \<in> set (dropWhile is_space s). is_space c"
    by (simp add: dropWhile_eq_Nil_conv)
  have "dropWhile is_space s = []"
  proof (rule ccontr)
    assume ne: "dropWhile is_space s \<noteq> []"
    then have "\<not> is_space (hd (dropWhile is_space s))"
      by (rule hd_dropWhile)
    moreover have "hd (dropWhile is_space s) \<in> set (dropWhile is_space s)"
      using ne by simp
    ultimately show False using all by blast
  qed
  then show "\<forall>c \<in> set s. is_space c"
    by (simp add: dropWhile_eq_Nil_conv)
next
  assume "\<forall>c \<in> set s. is_space c"
  then have "dropWhile is_space s = []" by simp
  then show "strip s = []" unfolding strip_def by (simp del: dropWhile_eq_Nil_conv)
qed






subsection \<open>The Document Extractor\<close>

text \<open>
  C7. A file whose name ends in neither \<open>.pdf\<close> nor \<open>.docx\<close> gives the empty
  text. The result is the same for every pair of readers, also for readers
  that raise on every file: neither is called, and nothing is raised.
\<close>

theorem C7_other_extension_empty_text:
  assumes "\<not> endswith (name uploaded) ''.pdf''"
    and "\<not> endswith (name uploaded) ''.docx''"
  shows "input_resume_text e uploaded = Inr []"
  using assms by (simp add: input_resume_text_def)

theorem C7_other_extension_witness:
  "\<not> endswith ''notes.txt'' ''.pdf'' \<and> \<not> endswith ''notes.txt'' ''.docx'' \<and>
   input_resume_text failing \<lparr>name = ''notes.txt'', content = ''plain text''\<rparr> = Inr []"
proof -
  have a: "\<not> endswith (name \<lparr>name = ''notes.txt'', content = ''plain text''\<rparr>) ''.pdf''"
    by (simp add: endswith_def)
  have b: "\<not> endswith (name \<lparr>name = ''notes.txt'', content = ''plain text''\<rparr>) ''.docx''"
    by (simp add: endswith_def)
  show ?thesis
    using C7_other_extension_empty_text [OF a b, of failing] a b by simp
qed

subsection \<open>Input validation\<close>

text \<open>
  C8. With no uploaded file, or with a job description that is empty or all
  whitespace, pressing the button shows the one error message and does
  nothing else: the outcome is the same for all libraries, no row is
  recorded and no download is offered.
\<close>

theorem C8_run_rejected_up_front:
  assumes "uploaded_files = [] \<or> (\<forall>c \<in> set jd_input. is_space c)"
  shows "evaluate_resumes e jd_input uploaded_files linkedin_url =
           Inr \<lparr>ui = [StError ''Please provide both JD and at least one resume.''],
                results_data = []\<rparr>"
  using assms by (auto simp: evaluate_resumes_def strip_empty_iff)

theorem C8_run_rejected_witness:
  "is_space (CHR '' '') \<and> is_space (CHR 0x09) \<and> is_space (CHR 0x0A) \<and>
   evaluate_resumes failing [CHR '' '', CHR 0x09, CHR 0x0A]
     [\<lparr>name = ''cv.pdf'', content = ''text''\<rparr>] ''''
   = Inr \<lparr>ui = [StError ''Please provide both JD and at least one resume.''],
          results_data = []\<rparr>"
proof -
  have blank: "is_space (CHR '' '') \<and> is_space (CHR 0x09) \<and> is_space (CHR 0x0A)"
    by (simp add: is_space_def)
  then have "[\<lparr>name = ''cv.pdf'', content = ''text''\<rparr>] = [] \<or>
             (\<forall>c \<in> set [CHR '' '', CHR 0x09, CHR 0x0A]. is_space c)"
    by simp
  from C8_run_rejected_up_front [OF this, of failing "''''"] blank
  show ?thesis by blast
qed

subsection \<open>The Prompt Builder\<close>

text \<open>
  C4. The prompt is the template with the first 4000 characters of the resume
  text and the first 1000 characters of the job description in their places.
  A longer text contributes exactly 4000 (1000) characters, a text within the
  bound is embedded whole.
\<close>

theorem C4_prompt_truncates_inputs:
  "build_prompt resume_text jd_input linkedin_url =
     Inr (prompt_text (take 4000 resume_text) (take 1000 jd_input) linkedin_url) \<and>
   (4000 < length resume_text \<longrightarrow> length (take 4000 resume_text) = 4000) \<and>
   (length resume_text \<le> 4000 \<longrightarrow> take 4000 resume_text = resume_text) \<and>
   (1000 < length jd_input \<longrightarrow> length (take 1000 jd_input) = 1000) \<and>
   (length jd_input \<le> 1000 \<longrightarrow> take 1000 jd_input = jd_input)"
  by (simp add: build_prompt_text)

theorem C4_prompt_truncates_witness:
  "4000 < length (replicate 4001 (97 :: nat)) \<and>
   length (''short jd'') \<le> 1000 \<and>
   build_prompt (replicate 4001 97) ''short jd'' '''' =
     Inr (prompt_text (replicate 4000 97) ''short jd'' '''') \<and>
   length (cps ''short resume'') \<le> 4000 \<and>
   1000 < length (replicate 1001 (CHR ''b'')) \<and>
   build_prompt (cps ''short resume'') (replicate 1001 (CHR ''b'')) ''in/ada'' =
     Inr (prompt_text (cps ''short resume'') (replicate 1000 (CHR ''b'')) ''in/ada'')"
  using C4_prompt_truncates_inputs [of "replicate 4001 97" "''short jd''" "''''"]
    C4_prompt_truncates_inputs [of "cps ''short resume''" "replicate 1001 (CHR ''b'')" "''in/ada''"]
  by (simp add: cps_def)




subsection \<open>The brace pattern\<close>

lemma dropWhile_skip: "\<forall>x \<in> set xs. P x \<Longrightarrow> dropWhile P (xs @ ys) = dropWhile P ys"
  by (induction xs) auto

lemma dropWhile_keep: "\<exists>x \<in> set xs. \<not> P x \<Longrightarrow> dropWhile P (xs @ ys) = dropWhile P xs @ ys"
  by (induction xs) auto

lemma until_last_close_Cons:
  "rev (dropWhile (\<lambda>c. c \<noteq> CHR ''}'') (rev (c # cs))) =
     (if CHR ''}'' \<in> set cs then c # rev (dropWhile (\<lambda>c. c \<noteq> CHR ''}'') (rev cs))
      else if c = CHR ''}'' then [c] else [])"
proof (cases "CHR ''}'' \<in> set cs")
  case True
  then have "\<exists>x \<in> set (rev cs). \<not> x \<noteq> CHR ''}''" by simp
  then have "dropWhile (\<lambda>c. c \<noteq> CHR ''}'') (rev cs @ [c])
               = dropWhile (\<lambda>c. c \<noteq> CHR ''}'') (rev cs) @ [c]"
    by (rule dropWhile_keep)
  with True show ?thesis by simp
next
  case False
  then have "\<forall>x \<in> set (rev cs). x \<noteq> CHR ''}''" by auto
  then have "dropWhile (\<lambda>c. c \<noteq> CHR ''}'') (rev cs @ [c])
               = dropWhile (\<lambda>c. c \<noteq> CHR ''}'') [c]"
    by (rule dropWhile_skip)
  with False show ?thesis by simp
qed

lemma dot_star_close_span:
  "dot_star_close cs =
     (if CHR ''}'' \<in> set cs
      then Some (rev (dropWhile (\<lambda>c. c \<noteq> CHR ''}'') (rev cs))) else None)"
proof (induction cs)
  case Nil
  show ?case by simp
next
  case (Cons c cs)
  show ?case
    unfolding dot_star_close.simps Cons.IH until_last_close_Cons by auto
qed

lemma re_search_brace_span: "re_search s = brace_span s"
proof (induction s)
  case Nil
  show ?case by (simp add: brace_span_def)
next
  case (Cons c cs)
  show ?case
  proof (cases "c = CHR ''{''")
    case False
    with Cons.IH show ?thesis by (simp add: brace_span_def)
  next
    case True
    show ?thesis
    proof (cases "CHR ''}'' \<in> set cs")
      case inside: True
      have "brace_span (c # cs) = Some (c # rev (dropWhile (\<lambda>c. c \<noteq> CHR ''}'') (rev cs)))"
        unfolding brace_span_def using True inside
        by (simp add: until_last_close_Cons del: rev.simps)
      with True inside show ?thesis
        by (simp add: dot_star_close_span)
    next
      case outside: False
      then have "CHR ''}'' \<notin> set (dropWhile (\<lambda>c. c \<noteq> CHR ''{'') cs)"
        by (blast dest: set_dropWhileD)
      then have "brace_span cs = None" by (simp add: brace_span_def)
      moreover have "brace_span (c # cs) = None"
        using True outside by (simp add: brace_span_def)
      ultimately show ?thesis
        using True outside Cons.IH by (simp add: dot_star_close_span)
    qed
  qed
qed

lemma brace_span_embedded:
  assumes "CHR ''{'' \<notin> set pre" and "CHR ''}'' \<notin> set post"
  shows "brace_span (pre @ CHR ''{'' # body @ CHR ''}'' # post) = Some (CHR ''{'' # body @ ''}'')"
proof -
  have "\<forall>x \<in> set pre. x \<noteq> CHR ''{''" using assms(1) by auto
  then have "dropWhile (\<lambda>c. c \<noteq> CHR ''{'') (pre @ (CHR ''{'' # body @ CHR ''}'' # post))
                 = dropWhile (\<lambda>c. c \<noteq> CHR ''{'') (CHR ''{'' # body @ CHR ''}'' # post)"
    by (rule dropWhile_skip)
  then have first: "dropWhile (\<lambda>c. c \<noteq> CHR ''{'') (pre @ CHR ''{'' # body @ CHR ''}'' # post)
                 = CHR ''{'' # body @ CHR ''}'' # post"
    by simp
  have "\<forall>x \<in> set (rev post). x \<noteq> CHR ''}''" using assms(2) by auto
  then have "dropWhile (\<lambda>c. c \<noteq> CHR ''}'') (rev post @ (CHR ''}'' # rev body @ ''{''))
               = dropWhile (\<lambda>c. c \<noteq> CHR ''}'') (CHR ''}'' # rev body @ ''{'')"
    by (rule dropWhile_skip)
  then have "dropWhile (\<lambda>c. c \<noteq> CHR ''}'') (rev (CHR ''{'' # body @ CHR ''}'' # post))
               = CHR ''}'' # rev body @ ''{''"
    by simp
  then have last: "rev (dropWhile (\<lambda>c. c \<noteq> CHR ''}'') (rev (CHR ''{'' # body @ CHR ''}'' # post)))
               = CHR ''{'' # body @ ''}''"
    by simp
  show ?thesis
    unfolding brace_span_def first Let_def last by simp
qed

lemma parse_response_fallback:
  assumes "json_loads text = Inl JSONDecodeError"
  shows "parse_response text =
           (case brace_span text of
              None \<Rightarrow> Inr None
            | Some m \<Rightarrow> (case json_loads m of Inr v \<Rightarrow> Inr (Some v) | Inl err \<Rightarrow> Inl err))"
  using assms by (simp add: parse_response_def re_search_brace_span)

subsection \<open>The fallback payload\<close>

lemma dumps_fallback_payload: "json_dumps fallback_payload = fallback_text"
  by code_simp

lemma loads_fallback_text: "json_loads fallback_text = Inr fallback_payload"
  by code_simp

subsection \<open>The Response Parser\<close>

text \<open>
  C9, as stated, fails: the span from the first opening brace to the last
  closing brace is what the fallback takes, so an object followed by text
  with a closing brace of its own is not what gets parsed. Here the object
  \<open>{"JD Match":"80%"}\<close> is valid, the text around it is not JSON, and the
  fallback takes the span up to the brace of \<open>{ok}\<close> and fails to parse it.
\<close>

theorem C9_embedded_object_counterexample:
  \<open>json_loads ''{"JD Match":"80%"}'' = Inr (JObject [(''JD Match'', JString ''80%'')]) \<and>
   json_loads ''Sure! {"JD Match":"80%"} {ok}'' = Inl JSONDecodeError \<and>
   re_search ''Sure! {"JD Match":"80%"} {ok}'' = Some ''{"JD Match":"80%"} {ok}'' \<and>
   parse_response ''Sure! {"JD Match":"80%"} {ok}'' = Inl JSONDecodeError\<close>
  by code_simp

text \<open>
  C9, amended. The pattern matches exactly when a closing brace follows the
  first opening brace, and the match is the span from that brace to the last
  closing brace of the text. For a text that is not JSON as a whole, that span
  is what the fallback parses; a valid object embedded in text with no opening
  brace before it and no closing brace after it is the span, and is parsed.
\<close>

theorem C9_fallback_takes_brace_span:
  "re_search text = brace_span text \<and>
   (json_loads text = Inl JSONDecodeError \<longrightarrow>
      parse_response text =
        (case brace_span text of
           None \<Rightarrow> Inr None
         | Some m \<Rightarrow> (case json_loads m of Inr v \<Rightarrow> Inr (Some v) | Inl err \<Rightarrow> Inl err))) \<and>
   (CHR ''{'' \<notin> set pre \<and> CHR ''}'' \<notin> set post \<and>
    json_loads (pre @ CHR ''{'' # body @ CHR ''}'' # post) = Inl JSONDecodeError \<and>
    json_loads (CHR ''{'' # body @ ''}'') = Inr v \<longrightarrow>
      re_search (pre @ CHR ''{'' # body @ CHR ''}'' # post) = Some (CHR ''{'' # body @ ''}'') \<and>
      parse_response (pre @ CHR ''{'' # body @ CHR ''}'' # post) = Inr (Some v))"
proof (intro conjI impI)
  show "re_search text = brace_span text"
    by (rule re_search_brace_span)
next
  assume "json_loads text = Inl JSONDecodeError"
  then show "parse_response text =
        (case brace_span text of
           None \<Rightarrow> Inr None
         | Some m \<Rightarrow> (case json_loads m of Inr v \<Rightarrow> Inr (Some v) | Inl err \<Rightarrow> Inl err))"
    by (rule parse_response_fallback)
next
  assume a: "CHR ''{'' \<notin> set pre \<and> CHR ''}'' \<notin> set post \<and>
    json_loads (pre @ CHR ''{'' # body @ CHR ''}'' # post) = Inl JSONDecodeError \<and>
    json_loads (CHR ''{'' # body @ ''}'') = Inr v"
  then have span: "brace_span (pre @ CHR ''{'' # body @ CHR ''}'' # post)
                     = Some (CHR ''{'' # body @ ''}'')"
    by (simp add: brace_span_embedded)
  then show "re_search (pre @ CHR ''{'' # body @ CHR ''}'' # post) = Some (CHR ''{'' # body @ ''}'')"
    by (simp add: re_search_brace_span)
  from a span show "parse_response (pre @ CHR ''{'' # body @ CHR ''}'' # post) = Inr (Some v)"
    by (simp add: parse_response_fallback)
qed

theorem C9_fallback_takes_brace_span_witness:
  \<open>CHR ''{'' \<notin> set ''Sure! '' \<and> CHR ''}'' \<notin> set '' Done.'' \<and>
   json_loads ''Sure! {"JD Match":"80%"} Done.'' = Inl JSONDecodeError \<and>
   json_loads ''{"JD Match":"80%"}'' = Inr (JObject [(''JD Match'', JString ''80%'')]) \<and>
   re_search ''Sure! {"JD Match":"80%"} Done.'' = Some ''{"JD Match":"80%"}'' \<and>
   parse_response ''Sure! {"JD Match":"80%"} Done.''
     = Inr (Some (JObject [(''JD Match'', JString ''80%'')]))\<close>
proof -
  have pre: \<open>CHR ''{'' \<notin> set ''Sure! ''\<close> by simp
  have post: \<open>CHR ''}'' \<notin> set '' Done.''\<close> by simp
  have whole: \<open>json_loads (''Sure! '' @ CHR ''{'' # ''"JD Match":"80%"'' @ CHR ''}'' # '' Done.'')
                 = Inl JSONDecodeError\<close>
    by code_simp
  have obj: \<open>json_loads (CHR ''{'' # ''"JD Match":"80%"'' @ ''}'')
               = Inr (JObject [(''JD Match'', JString ''80%'')])\<close>
    by code_simp
  from C9_fallback_takes_brace_span
         [of \<open>''Sure! {"JD Match":"80%"} Done.''\<close> "''Sure! ''" "'' Done.''"
             \<open>''"JD Match":"80%"''\<close>
             "JObject [(''JD Match'', JString ''80%'')]"]
       pre post whole obj
  have \<open>re_search (''Sure! '' @ CHR ''{'' # ''"JD Match":"80%"'' @ CHR ''}'' # '' Done.'')
          = Some (CHR ''{'' # ''"JD Match":"80%"'' @ ''}'') \<and>
        parse_response (''Sure! '' @ CHR ''{'' # ''"JD Match":"80%"'' @ CHR ''}'' # '' Done.'')
          = Inr (Some (JObject [(''JD Match'', JString ''80%'')]))\<close>
    by blast
  with pre post whole obj show ?thesis by simp
qed

text \<open>
  C1. A reply with no brace pair is skipped as the claim says: the error is
  shown, no row is recorded, the run goes on to its end. A reply whose brace
  span does not parse is not: the second \<open>json.loads\<close> sits in the \<open>except\<close>
  branch, outside any \<open>try\<close>, so its \<open>JSONDecodeError\<close> leaves the loop and ends
  the run, with a second resume still to come.
\<close>

theorem C1_unparseable_span_ends_run:
  \<open>json_loads ''{"JD Match": "80%",}'' = Inl JSONDecodeError \<and>
   re_search ''{"JD Match": "80%",}'' = Some ''{"JD Match": "80%",}'' \<and>
   parse_response ''{"JD Match": "80%",}'' = Inl JSONDecodeError \<and>
   evaluate_resumes (answering ''{"JD Match": "80%",}'') ''JD''
     [cv ''first.pdf'', cv ''second.pdf''] '''' = Inl JSONDecodeError \<and>
   parse_response ''I cannot help with that.'' = Inr None \<and>
   evaluate_resumes (answering ''I cannot help with that.'') ''JD''
     [cv ''first.pdf'', cv ''second.pdf''] ''''
     = Inr \<lparr>ui = [StProgress 0 2,
                  StSubheader ''first.pdf'', StError ''Failed to parse JSON.'',
                  StSubheader ''second.pdf'', StError ''Failed to parse JSON.'',
                  StSuccess, StBalloons],
            results_data = []\<rparr>\<close>
  by code_simp

subsection \<open>The Evaluation Client\<close>

text \<open>
  C2, as stated, fails in one field: the fallback's profile summary is the
  word \<open>Error\<close>, neither empty nor \<open>N/A\<close>.
\<close>

theorem C2_fallback_fields_counterexample:
  \<open>get_gemini_response failing (cps ''any prompt'')
     = (''{"JD Match": "N/A", "MissingKeywords": [], "Profile Summary": "Error", "Candidate Name": "", "Role": "", "Current Company": "", "Duration": "", "Overall Experience": "", "LinkedIn": ""}'',
        [StGeminiError (LibraryError ''quota exceeded'')]) \<and>
   json_loads (fst (get_gemini_response failing (cps ''any prompt'')))
     = Inr (JObject
         [(''JD Match'', JString ''N/A''), (''MissingKeywords'', JArray []),
          (''Profile Summary'', JString ''Error''), (''Candidate Name'', JString ''''),
          (''Role'', JString ''''), (''Current Company'', JString ''''),
          (''Duration'', JString ''''), (''Overall Experience'', JString ''''),
          (''LinkedIn'', JString '''')]) \<and>
   JString ''Error'' \<noteq> JString '''' \<and> JString ''Error'' \<noteq> JString ''N/A''\<close>
  by code_simp

text \<open>
  C2, amended. Whatever the call raises and whatever the prompt, the client
  shows the error and returns one fixed text. The text is valid JSON: it
  parses directly to the object with \<open>N/A\<close> as the match, no missing keyword,
  \<open>Error\<close> as the profile summary and the empty string in the six other
  fields, and field extraction builds a row from it.
\<close>

theorem C2_failure_gives_fallback:
  assumes "generate_content e input_text = Inl err"
  shows "get_gemini_response e input_text = (fallback_text, [StGeminiError err]) \<and>
         parse_response fallback_text = Inr (Some fallback_payload) \<and>
         fallback_payload = JObject
           [(''JD Match'', JString ''N/A''), (''MissingKeywords'', JArray []),
            (''Profile Summary'', JString ''Error''), (''Candidate Name'', JString ''''),
            (''Role'', JString ''''), (''Current Company'', JString ''''),
            (''Duration'', JString ''''), (''Overall Experience'', JString ''''),
            (''LinkedIn'', JString '''')] \<and>
         show_result file_name fallback_payload =
           Inr ([StMetric ''JD Match'' (JString ''N/A''),
                 StMetricCount ''Missing Keywords'' 0,
                 StInfoBox (JString '''') (JString '''') (JString '''') (JString '''')
                   (JString '''') (JString ''''),
                 StInfo (JString ''Error'')],
                [(''Resume File'', JString file_name),
                 (''JD Match'', JString ''N/A''),
                 (''Candidate Name'', JString ''''),
                 (''Role'', JString ''''),
                 (''Current Company'', JString ''''),
                 (''Duration'', JString ''''),
                 (''Overall Experience'', JString ''''),
                 (''LinkedIn'', JString ''''),
                 (''Missing Keywords'', JString ''''),
                 (''Profile Summary'', JString ''Error'')])"
proof (intro conjI)
  show "get_gemini_response e input_text = (fallback_text, [StGeminiError err])"
    using assms by (simp add: get_gemini_response_def dumps_fallback_payload)
  show "parse_response fallback_text = Inr (Some fallback_payload)"
    by (simp add: parse_response_def loads_fallback_text)
  show "fallback_payload = JObject
           [(''JD Match'', JString ''N/A''), (''MissingKeywords'', JArray []),
            (''Profile Summary'', JString ''Error''), (''Candidate Name'', JString ''''),
            (''Role'', JString ''''), (''Current Company'', JString ''''),
            (''Duration'', JString ''''), (''Overall Experience'', JString ''''),
            (''LinkedIn'', JString '''')]"
    by (simp add: fallback_payload_def)
  show "show_result file_name fallback_payload =
           Inr ([StMetric ''JD Match'' (JString ''N/A''),
                 StMetricCount ''Missing Keywords'' 0,
                 StInfoBox (JString '''') (JString '''') (JString '''') (JString '''')
                   (JString '''') (JString ''''),
                 StInfo (JString ''Error'')],
                [(''Resume File'', JString file_name),
                 (''JD Match'', JString ''N/A''),
                 (''Candidate Name'', JString ''''),
                 (''Role'', JString ''''),
                 (''Current Company'', JString ''''),
                 (''Duration'', JString ''''),
                 (''Overall Experience'', JString ''''),
                 (''LinkedIn'', JString ''''),
                 (''Missing Keywords'', JString ''''),
                 (''Profile Summary'', JString ''Error'')])"
    by (simp add: show_result_def fallback_payload_def dict_get_def metric_accepts_def Let_def
          py_len_def py_join_def)
qed

theorem C2_failure_gives_fallback_witness:
  "generate_content failing (cps ''any prompt'') = Inl (LibraryError ''quota exceeded'') \<and>
   get_gemini_response failing (cps ''any prompt'')
     = (fallback_text, [StGeminiError (LibraryError ''quota exceeded'')]) \<and>
   parse_response fallback_text = Inr (Some fallback_payload)"
proof -
  have raised: "generate_content failing (cps ''any prompt'') = Inl (LibraryError ''quota exceeded'')"
    by (simp add: failing_def)
  from C2_failure_gives_fallback [OF raised] raised show ?thesis by simp
qed

subsection \<open>Field extraction\<close>

text \<open>
  C3, as stated, fails in one field: the row does not hold the list of
  missing keywords of the reply but the text that joins them.
\<close>

theorem C3_row_joins_keywords_counterexample:
  \<open>json_loads ''{"JD Match": "80%", "MissingKeywords": ["python", "sql"], "Profile Summary": "Analyst", "Candidate Name": "Ada", "Role": "Engineer", "Current Company": "Acme", "Duration": "2 years", "Overall Experience": "5 years", "LinkedIn": "none"}''
     = Inr (JObject
         [(''JD Match'', JString ''80%''),
          (''MissingKeywords'', JArray [JString ''python'', JString ''sql'']),
          (''Profile Summary'', JString ''Analyst''), (''Candidate Name'', JString ''Ada''),
          (''Role'', JString ''Engineer''), (''Current Company'', JString ''Acme''),
          (''Duration'', JString ''2 years''), (''Overall Experience'', JString ''5 years''),
          (''LinkedIn'', JString ''none'')]) \<and>
   show_result ''cv.pdf'' (JObject
         [(''JD Match'', JString ''80%''),
          (''MissingKeywords'', JArray [JString ''python'', JString ''sql'']),
          (''Profile Summary'', JString ''Analyst''), (''Candidate Name'', JString ''Ada''),
          (''Role'', JString ''Engineer''), (''Current Company'', JString ''Acme''),
          (''Duration'', JString ''2 years''), (''Overall Experience'', JString ''5 years''),
          (''LinkedIn'', JString ''none'')])
     = Inr ([StMetric ''JD Match'' (JString ''80%''),
             StMetricCount ''Missing Keywords'' 2,
             StInfoBox (JString ''Ada'') (JString ''Engineer'') (JString ''Acme'')
               (JString ''2 years'') (JString ''5 years'') (JString ''none''),
             StInfo (JString ''Analyst''),
             StWarning ''python, sql''],
            [(''Resume File'', JString ''cv.pdf''),
             (''JD Match'', JString ''80%''),
             (''Candidate Name'', JString ''Ada''),
             (''Role'', JString ''Engineer''),
             (''Current Company'', JString ''Acme''),
             (''Duration'', JString ''2 years''),
             (''Overall Experience'', JString ''5 years''),
             (''LinkedIn'', JString ''none''),
             (''Missing Keywords'', JString ''python, sql''),
             (''Profile Summary'', JString ''Analyst'')]) \<and>
   JString ''python, sql'' \<noteq> JArray [JString ''python'', JString ''sql'']\<close>
  by code_simp

text \<open>
  C3, amended. A reply that is a JSON object with all nine keys, whose match
  is a value the page can show (not a list or an object) and whose missing
  keywords are a list of strings, parses directly, and its row holds the file
  name, the eight other values as they are, and the keywords joined by a comma
  and a space.
\<close>

theorem C3_row_holds_reply_values:
  assumes "json_loads response = Inr (JObject kvs)"
    and "map_of kvs ''JD Match'' = Some jd_match"
    and "map_of kvs ''MissingKeywords'' = Some (JArray items)"
    and "map_of kvs ''Profile Summary'' = Some profile_summary"
    and "map_of kvs ''Candidate Name'' = Some candidate_name"
    and "map_of kvs ''Role'' = Some role"
    and "map_of kvs ''Current Company'' = Some current_company"
    and "map_of kvs ''Duration'' = Some duration"
    and "map_of kvs ''Overall Experience'' = Some overall_experience"
    and "map_of kvs ''LinkedIn'' = Some linkedin"
    and "metric_accepts jd_match"
    and "str_items items = Some keywords"
  shows "parse_response response = Inr (Some (JObject kvs)) \<and>
         (\<exists>evs. show_result file_name (JObject kvs) =
            Inr (evs,
                 [(''Resume File'', JString file_name),
                  (''JD Match'', jd_match),
                  (''Candidate Name'', candidate_name),
                  (''Role'', role),
                  (''Current Company'', current_company),
                  (''Duration'', duration),
                  (''Overall Experience'', overall_experience),
                  (''LinkedIn'', linkedin),
                  (''Missing Keywords'', JString (join '', '' keywords)),
                  (''Profile Summary'', profile_summary)]))"
proof
  show "parse_response response = Inr (Some (JObject kvs))"
    using assms(1) by (simp add: parse_response_def)
  show "\<exists>evs. show_result file_name (JObject kvs) =
            Inr (evs,
                 [(''Resume File'', JString file_name),
                  (''JD Match'', jd_match),
                  (''Candidate Name'', candidate_name),
                  (''Role'', role),
                  (''Current Company'', current_company),
                  (''Duration'', duration),
                  (''Overall Experience'', overall_experience),
                  (''LinkedIn'', linkedin),
                  (''Missing Keywords'', JString (join '', '' keywords)),
                  (''Profile Summary'', profile_summary)])"
    using assms(2-12)
    by (simp add: show_result_def dict_get_def py_len_def py_join_def Let_def)
qed

theorem C3_row_holds_reply_values_witness:
  "json_loads sample_reply = Inr (JObject sample_fields) \<and>
   map_of sample_fields ''JD Match'' = Some (JString ''80%'') \<and>
   map_of sample_fields ''MissingKeywords'' = Some (JArray [JString ''python'', JString ''sql'']) \<and>
   metric_accepts (JString ''80%'') \<and>
   str_items [JString ''python'', JString ''sql''] = Some [''python'', ''sql''] \<and>
   parse_response sample_reply = Inr (Some (JObject sample_fields)) \<and>
   (\<exists>evs. show_result ''cv.pdf'' (JObject sample_fields) =
      Inr (evs,
           [(''Resume File'', JString ''cv.pdf''),
            (''JD Match'', JString ''80%''),
            (''Candidate Name'', JString ''Ada''),
            (''Role'', JString ''Engineer''),
            (''Current Company'', JString ''Acme''),
            (''Duration'', JString ''2 years''),
            (''Overall Experience'', JString ''5 years''),
            (''LinkedIn'', JString ''none''),
            (''Missing Keywords'', JString ''python, sql''),
            (''Profile Summary'', JString ''Analyst'')]))"
proof -
  have loads: "json_loads sample_reply = Inr (JObject sample_fields)"
    by code_simp
  have k1: "map_of sample_fields ''JD Match'' = Some (JString ''80%'')"
    and k2: "map_of sample_fields ''MissingKeywords''
               = Some (JArray [JString ''python'', JString ''sql''])"
    and k3: "map_of sample_fields ''Profile Summary'' = Some (JString ''Analyst'')"
    and k4: "map_of sample_fields ''Candidate Name'' = Some (JString ''Ada'')"
    and k5: "map_of sample_fields ''Role'' = Some (JString ''Engineer'')"
    and k6: "map_of sample_fields ''Current Company'' = Some (JString ''Acme'')"
    and k7: "map_of sample_fields ''Duration'' = Some (JString ''2 years'')"
    and k8: "map_of sample_fields ''Overall Experience'' = Some (JString ''5 years'')"
    and k9: "map_of sample_fields ''LinkedIn'' = Some (JString ''none'')"
    by (simp_all add: sample_fields_def)
  have shown: "metric_accepts (JString ''80%'')"
    by (simp add: metric_accepts_def)
  have strs: "str_items [JString ''python'', JString ''sql''] = Some [''python'', ''sql'']"
    by simp
  from C3_row_holds_reply_values
         [OF loads k1 k2 k3 k4 k5 k6 k7 k8 k9 shown strs, of "''cv.pdf''"]
       loads k1 k2 shown strs
  show ?thesis by simp
qed

text \<open>
  C6, as stated, fails twice. The default of the match is \<open>N/A\<close>, not the
  empty string: the row of the empty object shows it. And a key that is
  present can be fatal: the number 5 as the missing keywords has no length,
  and the \<open>TypeError\<close> leaves the loop with no row.
\<close>

theorem C6_defaults_counterexample:
  \<open>json_loads ''{}'' = Inr (JObject []) \<and>
   show_result ''cv.pdf'' (JObject [])
     = Inr ([StMetric ''JD Match'' (JString ''N/A''),
             StMetricCount ''Missing Keywords'' 0,
             StInfoBox (JString '''') (JString '''') (JString '''') (JString '''')
               (JString '''') (JString ''''),
             StInfo (JString '''')],
            [(''Resume File'', JString ''cv.pdf''),
             (''JD Match'', JString ''N/A''),
             (''Candidate Name'', JString ''''),
             (''Role'', JString ''''),
             (''Current Company'', JString ''''),
             (''Duration'', JString ''''),
             (''Overall Experience'', JString ''''),
             (''LinkedIn'', JString ''''),
             (''Missing Keywords'', JString ''''),
             (''Profile Summary'', JString '''')]) \<and>
   JString ''N/A'' \<noteq> JString '''' \<and>
   json_loads ''{"MissingKeywords": 5}'' = Inr (JObject [(''MissingKeywords'', JNumber ''5'')]) \<and>
   show_result ''cv.pdf'' (JObject [(''MissingKeywords'', JNumber ''5'')]) = Inl TypeError\<close>
  by code_simp

text \<open>
  C6, amended. Each of the nine fields is the value of its key, or its
  default when the key is absent: \<open>N/A\<close> for the match, the empty list for the
  missing keywords, the empty string for the seven others. No key has to be
  there. Every object whose match, if present, is not a list or an object, and
  whose missing keywords, if present, are a list of strings, the empty object
  among them, yields a row.
\<close>

theorem C6_absent_keys_get_defaults:
  assumes "dict_get kvs ''MissingKeywords'' (JArray []) = JArray items"
    and "str_items items = Some keywords"
    and "metric_accepts (dict_get kvs ''JD Match'' (JString ''N/A''))"
  shows "(\<exists>evs. show_result file_name (JObject kvs) =
            Inr (evs,
                 [(''Resume File'', JString file_name),
                  (''JD Match'', dict_get kvs ''JD Match'' (JString ''N/A'')),
                  (''Candidate Name'', dict_get kvs ''Candidate Name'' (JString '''')),
                  (''Role'', dict_get kvs ''Role'' (JString '''')),
                  (''Current Company'', dict_get kvs ''Current Company'' (JString '''')),
                  (''Duration'', dict_get kvs ''Duration'' (JString '''')),
                  (''Overall Experience'', dict_get kvs ''Overall Experience'' (JString '''')),
                  (''LinkedIn'', dict_get kvs ''LinkedIn'' (JString '''')),
                  (''Missing Keywords'', JString (join '', '' keywords)),
                  (''Profile Summary'', dict_get kvs ''Profile Summary'' (JString ''''))])) \<and>
         (\<forall>key dflt. map_of kvs key = None \<longrightarrow> dict_get kvs key dflt = dflt) \<and>
         (\<forall>key dflt v. map_of kvs key = Some v \<longrightarrow> dict_get kvs key dflt = v)"
  using assms
  by (simp add: show_result_def py_len_def py_join_def Let_def) (simp add: dict_get_def)

theorem C6_absent_keys_get_defaults_witness:
  "dict_get [] ''MissingKeywords'' (JArray []) = JArray [] \<and>
   str_items [] = Some [] \<and>
   metric_accepts (dict_get [] ''JD Match'' (JString ''N/A'')) \<and>
   (\<exists>evs. show_result ''cv.pdf'' (JObject []) =
      Inr (evs,
           [(''Resume File'', JString ''cv.pdf''),
            (''JD Match'', JString ''N/A''),
            (''Candidate Name'', JString ''''),
            (''Role'', JString ''''),
            (''Current Company'', JString ''''),
            (''Duration'', JString ''''),
            (''Overall Experience'', JString ''''),
            (''LinkedIn'', JString ''''),
            (''Missing Keywords'', JString ''''),
            (''Profile Summary'', JString '''')]))"
proof -
  have a: "dict_get [] ''MissingKeywords'' (JArray []) = JArray []"
    by (simp add: dict_get_def)
  have b: "str_items [] = Some []" by simp
  have c: "metric_accepts (dict_get [] ''JD Match'' (JString ''N/A''))"
    by (simp add: dict_get_def metric_accepts_def)
  have d: "dict_get [] key dflt = dflt" for key dflt
    by (simp add: dict_get_def)
  from C6_absent_keys_get_defaults [OF a b c, of "''cv.pdf''"] a b c
  show ?thesis by (simp add: d)
qed

subsection \<open>Rows, the loop and the table\<close>

lemma show_result_row:
  assumes "show_result file_name v = Inr (evs, r)"
  shows "\<exists>kvs joined. v = JObject kvs \<and>
           py_join '', '' (dict_get kvs ''MissingKeywords'' (JArray [])) = Inr joined \<and>
           map_of r ''Missing Keywords'' = Some (JString joined) \<and>
           map_of r ''Resume File'' = Some (JString file_name) \<and>
           map fst r = csv_columns \<and>
           (\<forall>b. StDownloadButton b \<notin> set evs)"
proof (cases v)
  case (JObject kvs)
  with assms show ?thesis
    by (auto simp: show_result_def Let_def csv_columns_def split: if_splits sum.splits)
qed (use assms in \<open>simp_all add: show_result_def\<close>)

lemma process_resume_row:
  assumes "process_resume e jd_input linkedin_url uploaded = Inr (evs, ro)"
  shows "(\<forall>b. StDownloadButton b \<notin> set evs) \<and>
         (case ro of
            None \<Rightarrow> parsed_json e jd_input linkedin_url uploaded = None
          | Some r \<Rightarrow>
              \<exists>v evs'. parsed_json e jd_input linkedin_url uploaded = Some v \<and>
                        show_result (name uploaded) v = Inr (evs', r))"
proof (cases "resume_prompt e jd_input linkedin_url uploaded")
  case (Inl err)
  with assms show ?thesis by (simp add: process_resume_def)
next
  case (Inr prompt)
  obtain response shown where g: "get_gemini_response e prompt = (response, shown)"
    by (cases "get_gemini_response e prompt")
  have shown: "StDownloadButton b \<notin> set shown" for b
    using g by (auto simp: get_gemini_response_def split: sum.splits)
  show ?thesis
  proof (cases "parse_response response")
    case (Inl err)
    with assms Inr g show ?thesis by (simp add: process_resume_def)
  next
    case parsed: (Inr vo)
    show ?thesis
    proof (cases vo)
      case None
      with assms Inr g parsed shown show ?thesis
        by (auto simp: process_resume_def parsed_json_def)
    next
      case (Some v)
      show ?thesis
      proof (cases "show_result (name uploaded) v")
        case (Inl err)
        with assms Inr g parsed Some show ?thesis by (simp add: process_resume_def)
      next
        case shown_row: (Inr p)
        obtain evs' r where p: "p = (evs', r)" by (cases p)
        from show_result_row [of "name uploaded" v evs' r] shown_row p
        have "\<forall>b. StDownloadButton b \<notin> set evs'" by blast
        with assms Inr g parsed Some shown_row p shown show ?thesis
          by (auto simp: process_resume_def parsed_json_def)
      qed
    qed
  qed
qed

lemma evaluate_loop_rows:
  assumes "evaluate_loop e jd_input linkedin_url n_files idx files st = Inr st'"
  shows "\<exists>new. results_data st' = results_data st @ new \<and>
           list_all2
             (\<lambda>r f. \<exists>v evs. parsed_json e jd_input linkedin_url f = Some v \<and>
                             show_result (name f) v = Inr (evs, r))
             new (filter (\<lambda>f. parsed_json e jd_input linkedin_url f \<noteq> None) files) \<and>
           (\<forall>b. StDownloadButton b \<in> set (ui st') \<longrightarrow> StDownloadButton b \<in> set (ui st))"
  using assms
proof (induction files arbitrary: idx st)
  case Nil
  then show ?case by simp
next
  case (Cons f fs)
  show ?case
  proof (cases "process_resume e jd_input linkedin_url f")
    case (Inl err)
    with Cons.prems show ?thesis by simp
  next
    case (Inr p)
    obtain evs ro where p: "p = (evs, ro)" by (cases p)
    note facts = process_resume_row [of e jd_input linkedin_url f evs ro]
    show ?thesis
    proof (cases ro)
      case None
      with Cons.prems Inr p
      have "evaluate_loop e jd_input linkedin_url n_files (idx + 1) fs (st\<lparr>ui := ui st @ evs\<rparr>)
              = Inr st'"
        by simp
      from Cons.IH [OF this] facts Inr p None show ?thesis
        by auto
    next
      case (Some r)
      with Cons.prems Inr p
      have "evaluate_loop e jd_input linkedin_url n_files (idx + 1) fs
              (st\<lparr>ui := ui st @ evs @ [StProgress (idx + 1) n_files],
                  results_data := results_data st @ [r]\<rparr>) = Inr st'"
        by simp
      from Cons.IH [OF this] facts Inr p Some show ?thesis
        by auto
    qed
  qed
qed

lemma cells_of_row:
  "distinct (map fst r) \<Longrightarrow>
   map (\<lambda>c. case map_of r c of Some v \<Rightarrow> g v | None \<Rightarrow> d) (map fst r) = map (\<lambda>kv. g (snd kv)) r"
proof (induction r)
  case Nil
  show ?case by simp
next
  case (Cons kv r)
  obtain k v where kv: "kv = (k, v)" by (cases kv)
  from Cons.prems kv have "k \<notin> fst ` set r" and d: "distinct (map fst r)" by auto
  then have "map (\<lambda>c. case map_of ((k, v) # r) c of Some v \<Rightarrow> g v | None \<Rightarrow> d) (map fst r)
               = map (\<lambda>c. case map_of r c of Some v \<Rightarrow> g v | None \<Rightarrow> d) (map fst r)"
    by (intro map_cong) auto
  with Cons.IH [OF d] kv show ?case by simp
qed

lemma to_csv_lines:
  assumes "rows \<noteq> []" and "\<forall>r \<in> set rows. map fst r = csv_columns"
  shows "to_csv e rows =
           ''Resume File,JD Match,Candidate Name,Role,Current Company,Duration,Overall Experience,LinkedIn,Missing Keywords,Profile Summary''
           @ lineterminator e
           @ concat (map (\<lambda>r. join '','' (map (\<lambda>kv. cell_text e (snd kv)) r) @ lineterminator e) rows)"
proof -
  from assms have cols: "columns rows = csv_columns"
    by (cases rows) (simp_all add: columns_def)
  have dist: "distinct csv_columns" by (simp add: csv_columns_def)
  have line: "map (\<lambda>c. case map_of r c of Some v \<Rightarrow> cell_text e v | None \<Rightarrow> []) csv_columns
                = map (\<lambda>kv. cell_text e (snd kv)) r" if "r \<in> set rows" for r
  proof -
    from that assms(2) have k: "map fst r = csv_columns" by blast
    with dist have "distinct (map fst r)" by simp
    from cells_of_row [OF this, where g = "cell_text e" and d = "[]"] k show ?thesis by simp
  qed
  have lines: "map (\<lambda>r. csv_line e (map (\<lambda>c. case map_of r c of Some v \<Rightarrow> cell_text e v | None \<Rightarrow> [])
                                  csv_columns)) rows
          = map (\<lambda>r. join '','' (map (\<lambda>kv. cell_text e (snd kv)) r) @ lineterminator e) rows"
    by (intro map_cong) (simp_all add: line csv_line_def)
  have head: "csv_line e csv_columns =
    ''Resume File,JD Match,Candidate Name,Role,Current Company,Duration,Overall Experience,LinkedIn,Missing Keywords,Profile Summary''
    @ lineterminator e"
    by (simp add: csv_columns_def csv_line_def)
  show ?thesis
    unfolding to_csv_def cols lines head by simp
qed

lemma list_all2_left: "list_all2 P xs ys \<Longrightarrow> x \<in> set xs \<Longrightarrow> \<exists>y. P x y"
  by (induction rule: list_all2_induct) auto

subsection \<open>The Report Aggregator\<close>

text \<open>
  C5, as stated, fails: a resume whose response was parsed can be left
  without a row. The reply \<open>{"MissingKeywords": 5}\<close> parses, the number has
  no length, and the \<open>TypeError\<close> of line 137 ends the run with no row and no
  report.
\<close>

theorem C5_parsed_resume_without_row_counterexample:
  \<open>parsed_json (answering ''{"MissingKeywords": 5}'') ''JD'' '''' (cv ''a.pdf'')
     = Some (JObject [(''MissingKeywords'', JNumber ''5'')]) \<and>
   evaluate_resumes (answering ''{"MissingKeywords": 5}'') ''JD'' [cv ''a.pdf''] ''''
     = Inl TypeError\<close>
  by code_simp

text \<open>
  C5, amended. When a run over at least one file and a non-blank job
  description comes to its end, the rows recorded are, in upload order, one
  for each resume whose response was parsed: the row field extraction built
  from the parsed object, under the name of that file, with the missing
  keywords joined by a comma and a space. Every row has the ten columns in the
  fixed order, and the table written from the rows starts with the header
  line of these columns and has one line per row. With no row no download
  button is shown; with a row, the button offers the encoded table.
\<close>

theorem C5_report_rows_and_download:
  assumes "evaluate_resumes e jd_input uploaded_files linkedin_url = Inr st"
    and "uploaded_files \<noteq> []"
    and "strip jd_input \<noteq> []"
  shows "list_all2
           (\<lambda>r f. \<exists>kvs evs joined.
              parsed_json e jd_input linkedin_url f = Some (JObject kvs) \<and>
              show_result (name f) (JObject kvs) = Inr (evs, r) \<and>
              map_of r ''Resume File'' = Some (JString (name f)) \<and>
              py_join '', '' (dict_get kvs ''MissingKeywords'' (JArray [])) = Inr joined \<and>
              map_of r ''Missing Keywords'' = Some (JString joined))
           (results_data st)
           (filter (\<lambda>f. parsed_json e jd_input linkedin_url f \<noteq> None) uploaded_files) \<and>
         (\<forall>r \<in> set (results_data st). map fst r = csv_columns) \<and>
         (results_data st = [] \<longrightarrow> (\<forall>b. StDownloadButton b \<notin> set (ui st))) \<and>
         (results_data st \<noteq> [] \<longrightarrow>
            StDownloadButton (encode_utf8 (to_csv e (results_data st))) \<in> set (ui st) \<and>
            to_csv e (results_data st) =
              ''Resume File,JD Match,Candidate Name,Role,Current Company,Duration,Overall Experience,LinkedIn,Missing Keywords,Profile Summary''
              @ lineterminator e
              @ concat (map (\<lambda>r. join '','' (map (\<lambda>kv. cell_text e (snd kv)) r) @ lineterminator e)
                            (results_data st)))"
proof -
  let ?start = "\<lparr>ui = [StProgress 0 (length uploaded_files)], results_data = []\<rparr>"
  from assms obtain st' where
    loop: "evaluate_loop e jd_input linkedin_url (length uploaded_files) 0 uploaded_files ?start
             = Inr st'"
    and st: "st = st'\<lparr>ui := ui st'
               @ (if results_data st' \<noteq> []
                  then [StDownloadButton (encode_utf8 (to_csv e (results_data st')))] else [])
               @ [StSuccess, StBalloons]\<rparr>"
    by (auto simp: evaluate_resumes_def split: sum.splits)
  from evaluate_loop_rows [OF loop]
  have rows0: "list_all2
                 (\<lambda>r f. \<exists>v evs. parsed_json e jd_input linkedin_url f = Some v \<and>
                                 show_result (name f) v = Inr (evs, r))
                 (results_data st')
                 (filter (\<lambda>f. parsed_json e jd_input linkedin_url f \<noteq> None) uploaded_files)"
    and quiet: "\<forall>b. StDownloadButton b \<notin> set (ui st')"
    by auto
  have data: "results_data st = results_data st'"
    by (simp add: st)
  have rows: "list_all2
           (\<lambda>r f. \<exists>kvs evs joined.
              parsed_json e jd_input linkedin_url f = Some (JObject kvs) \<and>
              show_result (name f) (JObject kvs) = Inr (evs, r) \<and>
              map_of r ''Resume File'' = Some (JString (name f)) \<and>
              py_join '', '' (dict_get kvs ''MissingKeywords'' (JArray [])) = Inr joined \<and>
              map_of r ''Missing Keywords'' = Some (JString joined))
           (results_data st)
           (filter (\<lambda>f. parsed_json e jd_input linkedin_url f \<noteq> None) uploaded_files)"
    unfolding data
    by (rule list_all2_mono [OF rows0]) (use show_result_row in blast)
  have cols: "\<forall>r \<in> set (results_data st). map fst r = csv_columns"
  proof
    fix r assume "r \<in> set (results_data st)"
    then have "r \<in> set (results_data st')" by (simp add: data)
    from list_all2_left [OF rows0 this]
    obtain f v evs where "parsed_json e jd_input linkedin_url f = Some v \<and>
                          show_result (name f) v = Inr (evs, r)"
      by blast
    then have "show_result (name f) v = Inr (evs, r)" by simp
    from show_result_row [OF this] show "map fst r = csv_columns" by blast
  qed
  have none: "results_data st = [] \<longrightarrow> (\<forall>b. StDownloadButton b \<notin> set (ui st))"
    using quiet by (simp add: st)
  have some: "results_data st \<noteq> [] \<longrightarrow>
                StDownloadButton (encode_utf8 (to_csv e (results_data st))) \<in> set (ui st)"
    by (simp add: st)
  from cols to_csv_lines
  have table: "results_data st \<noteq> [] \<longrightarrow>
            to_csv e (results_data st) =
              ''Resume File,JD Match,Candidate Name,Role,Current Company,Duration,Overall Experience,LinkedIn,Missing Keywords,Profile Summary''
              @ lineterminator e
              @ concat (map (\<lambda>r. join '','' (map (\<lambda>kv. cell_text e (snd kv)) r) @ lineterminator e)
                            (results_data st))"
    by blast
  from rows cols none some table show ?thesis by blast
qed

theorem C5_report_rows_and_download_witness:
  \<open>evaluate_resumes picky ''JD''
     [cv ''a.pdf'', \<lparr>name = ''b.docx'', content = ''Zed, zookeeper''\<rparr>, cv ''c.pdf''] ''''
     = Inr \<lparr>ui =
              [StProgress 0 3,
               StSubheader ''a.pdf'',
               StMetric ''JD Match'' (JString ''80%''),
               StMetricCount ''Missing Keywords'' 2,
               StInfoBox (JString ''Ada'') (JString ''Engineer'') (JString ''Acme'')
                 (JString ''2 years'') (JString ''5 years'') (JString ''none''),
               StInfo (JString ''Analyst''),
               StWarning ''python, sql'',
               StProgress 1 3,
               StSubheader ''b.docx'',
               StError ''Failed to parse JSON.'',
               StSubheader ''c.pdf'',
               StMetric ''JD Match'' (JString ''80%''),
               StMetricCount ''Missing Keywords'' 2,
               StInfoBox (JString ''Ada'') (JString ''Engineer'') (JString ''Acme'')
                 (JString ''2 years'') (JString ''5 years'') (JString ''none''),
               StInfo (JString ''Analyst''),
               StWarning ''python, sql'',
               StProgress 3 3,
               StDownloadButton
                 ''Resume File,JD Match,Candidate Name,Role,Current Company,Duration,Overall Experience,LinkedIn,Missing Keywords,Profile Summary\<newline>a.pdf,80%,Ada,Engineer,Acme,2 years,5 years,none,"python, sql",Analyst\<newline>c.pdf,80%,Ada,Engineer,Acme,2 years,5 years,none,"python, sql",Analyst\<newline>'',
               StSuccess, StBalloons],
            results_data = [sample_row ''a.pdf'', sample_row ''c.pdf'']\<rparr> \<and>
   strip ''JD'' \<noteq> [] \<and>
   filter (\<lambda>f. parsed_json picky ''JD'' '''' f \<noteq> None)
     [cv ''a.pdf'', \<lparr>name = ''b.docx'', content = ''Zed, zookeeper''\<rparr>, cv ''c.pdf'']
     = [cv ''a.pdf'', cv ''c.pdf''] \<and>
   list_all2
     (\<lambda>r f. \<exists>kvs evs joined.
        parsed_json picky ''JD'' '''' f = Some (JObject kvs) \<and>
        show_result (name f) (JObject kvs) = Inr (evs, r) \<and>
        map_of r ''Resume File'' = Some (JString (name f)) \<and>
        py_join '', '' (dict_get kvs ''MissingKeywords'' (JArray [])) = Inr joined \<and>
        map_of r ''Missing Keywords'' = Some (JString joined))
     [sample_row ''a.pdf'', sample_row ''c.pdf'']
     [cv ''a.pdf'', cv ''c.pdf'']\<close>
proof -
  let ?files = "[cv ''a.pdf'', \<lparr>name = ''b.docx'', content = ''Zed, zookeeper''\<rparr>, cv ''c.pdf'']"
  let ?st = \<open>\<lparr>ui =
              [StProgress 0 3,
               StSubheader ''a.pdf'',
               StMetric ''JD Match'' (JString ''80%''),
               StMetricCount ''Missing Keywords'' 2,
               StInfoBox (JString ''Ada'') (JString ''Engineer'') (JString ''Acme'')
                 (JString ''2 years'') (JString ''5 years'') (JString ''none''),
               StInfo (JString ''Analyst''),
               StWarning ''python, sql'',
               StProgress 1 3,
               StSubheader ''b.docx'',
               StError ''Failed to parse JSON.'',
               StSubheader ''c.pdf'',
               StMetric ''JD Match'' (JString ''80%''),
               StMetricCount ''Missing Keywords'' 2,
               StInfoBox (JString ''Ada'') (JString ''Engineer'') (JString ''Acme'')
                 (JString ''2 years'') (JString ''5 years'') (JString ''none''),
               StInfo (JString ''Analyst''),
               StWarning ''python, sql'',
               StProgress 3 3,
               StDownloadButton
                 ''Resume File,JD Match,Candidate Name,Role,Current Company,Duration,Overall Experience,LinkedIn,Missing Keywords,Profile Summary\<newline>a.pdf,80%,Ada,Engineer,Acme,2 years,5 years,none,"python, sql",Analyst\<newline>c.pdf,80%,Ada,Engineer,Acme,2 years,5 years,none,"python, sql",Analyst\<newline>'',
               StSuccess, StBalloons],
            results_data = [sample_row ''a.pdf'', sample_row ''c.pdf'']\<rparr>\<close>
  have run: "evaluate_resumes picky ''JD'' ?files '''' = Inr ?st"
    by code_simp
  have files: "?files \<noteq> []" by simp
  have jd: "strip ''JD'' \<noteq> []" by code_simp
  have parsed: "filter (\<lambda>f. parsed_json picky ''JD'' '''' f \<noteq> None) ?files
                  = [cv ''a.pdf'', cv ''c.pdf'']"
    by code_simp
  from C5_report_rows_and_download [OF run files jd] run jd parsed
  show ?thesis by simp
qed

end
